theory Spec2Isabelle
  imports Main "HOL-Library.Multiset"
begin

section \<open>Strings\<close>

text \<open>
  A JavaScript string is a sequence of UTF-16 code units. The model is a \<^typ>\<open>string\<close>
  whose characters stand for the code units 0 to 255 (the Latin-1 range): every string
  over these code units is represented exactly, strings with higher code units are not
  represented. \<open>toLowerCase\<close> and the regular expression class \<open>\s\<close> are the ECMAScript
  ones restricted to that range.
\<close>

definition isWhiteSpace :: "char \<Rightarrow> bool" where
  \<comment> \<open>\<open>\s\<close>: TAB, LF, VT, FF, CR, SPACE and NO-BREAK SPACE\<close>
  "isWhiteSpace c = (of_char c \<in> {9, 10, 11, 12, 13, 32, 160 :: nat})"

definition lowerChar :: "char \<Rightarrow> char" where
  \<comment> \<open>A to Z, and the Latin-1 capitals 0xC0 to 0xDE without the multiplication sign 0xD7\<close>
  "lowerChar c =
     (let n = of_char c :: nat
      in if (65 \<le> n \<and> n \<le> 90) \<or> (192 \<le> n \<and> n \<le> 222 \<and> n \<noteq> 215)
         then char_of (n + 32) else c)"

definition toLowerCase :: "string \<Rightarrow> string" where
  "toLowerCase s = map lowerChar s"

text \<open>\<open>str.replace(/\s+/g, '-')\<close>: every maximal run of whitespace becomes one hyphen.\<close>

function replaceWhitespaceRuns :: "string \<Rightarrow> string" where
  "replaceWhitespaceRuns [] = []"
| "replaceWhitespaceRuns (c # cs) =
     (if isWhiteSpace c then CHR ''-'' # replaceWhitespaceRuns (dropWhile isWhiteSpace cs)
      else c # replaceWhitespaceRuns cs)"
  by pat_completeness auto
termination
  by (relation "measure length") (auto simp: length_dropWhile_le less_Suc_eq_le)

definition slug :: "string \<Rightarrow> string" where
  \<comment> \<open>\<open>label.toLowerCase().replace(/\s+/g, '-')\<close>\<close>
  "slug label = replaceWhitespaceRuns (toLowerCase label)"

text \<open>
  \<open>utils.escapeHtml\<close> assigns the text to a detached element's \<open>textContent\<close> and reads
  \<open>innerHTML\<close> back: the HTML serialisation of a text node, which replaces the ampersand,
  the no-break space and the two angle brackets, and nothing else (no quotes).
\<close>

definition escapeChar :: "char \<Rightarrow> string" where
  "escapeChar c =
     (if c = CHR ''&'' then ''&amp;''
      else if c = CHR 0xA0 then ''&nbsp;''
      else if c = CHR ''<'' then ''&lt;''
      else if c = CHR ''>'' then ''&gt;''
      else [c])"

definition escapeHtml :: "string \<Rightarrow> string" where
  "escapeHtml text = concat (map escapeChar text)"

text \<open>\<open>v || d\<close> on an optional string: an absent and an empty string are both falsy.\<close>

definition truthy :: "string option \<Rightarrow> bool" where
  "truthy v = (case v of None \<Rightarrow> False | Some s \<Rightarrow> s \<noteq> [])"

definition orElse :: "string option \<Rightarrow> string \<Rightarrow> string" where
  "orElse v d = (case v of None \<Rightarrow> d | Some s \<Rightarrow> if s = [] then d else s)"

definition orDefault :: "nat option \<Rightarrow> nat \<Rightarrow> nat" where
  \<comment> \<open>\<open>n || d\<close> on an optional count: absent and 0 are both falsy\<close>
  "orDefault v d = (case v of None \<Rightarrow> d | Some n \<Rightarrow> if n = 0 then d else n)"


section \<open>Posts\<close>

text \<open>
  A record of the \<open>posts\<close> array of \<open>data/posts.json\<close>. \<open>id_field\<close> is \<open>post.id.toString()\<close>
  (the identifier is only ever used through its text). The optional fields are \<open>None\<close>
  when the key is missing.
\<close>

record post =
  id_field :: string
  title :: string
  excerpt :: string
  content :: "string option"
  author :: string
  category :: string
  tags :: "string list"
  date :: string
  image_field :: "string option"
  readTime :: "string option"


section \<open>Sorting by date\<close>

text \<open>
  \<open>new Date(s)\<close> is the platform's: \<open>parseDate s\<close> is its time value in milliseconds, and
  \<open>None\<close> for an Invalid Date (whose time value is NaN). A JavaScript number that results
  from subtracting two dates is an \<^typ>\<open>int option\<close>, \<open>None\<close> for NaN.
\<close>

definition dateCompare :: "(string \<Rightarrow> int option) \<Rightarrow> post \<Rightarrow> post \<Rightarrow> int option" where
  \<comment> \<open>\<open>(a, b) => new Date(b.date) - new Date(a.date)\<close>\<close>
  "dateCompare parseDate a b =
     (case parseDate (date b) of
        None \<Rightarrow> None
      | Some tb \<Rightarrow> (case parseDate (date a) of None \<Rightarrow> None | Some ta \<Rightarrow> Some (tb - ta)))"

text \<open>
  \<open>Array.prototype.sort(comparefn)\<close>. ECMAScript reads a NaN from the comparator as +0,
  requires the sort to be stable, and fixes the result when the comparator is a consistent
  one. The model is the stable insertion sort: an element stays in front of a later one
  unless the comparator puts it strictly behind.
\<close>

definition sortCompare :: "('a \<Rightarrow> 'a \<Rightarrow> int option) \<Rightarrow> 'a \<Rightarrow> 'a \<Rightarrow> int" where
  "sortCompare comparefn x y = (case comparefn x y of None \<Rightarrow> 0 | Some v \<Rightarrow> v)"

fun sortInsert :: "('a \<Rightarrow> 'a \<Rightarrow> int option) \<Rightarrow> 'a \<Rightarrow> 'a list \<Rightarrow> 'a list" where
  "sortInsert comparefn x [] = [x]"
| "sortInsert comparefn x (y # ys) =
     (if sortCompare comparefn x y \<le> 0 then x # y # ys else y # sortInsert comparefn x ys)"

definition array_sort :: "('a \<Rightarrow> 'a \<Rightarrow> int option) \<Rightarrow> 'a list \<Rightarrow> 'a list" where
  "array_sort comparefn xs = foldr (sortInsert comparefn) xs []"

definition dateValue :: "(string \<Rightarrow> int option) \<Rightarrow> post \<Rightarrow> int" where
  \<comment> \<open>the time value of a post whose date parses\<close>
  "dateValue parseDate p = the (parseDate (date p))"

definition sortByDate :: "(string \<Rightarrow> int option) \<Rightarrow> post list \<Rightarrow> post list" where
  \<comment> \<open>\<open>posts.sort((a, b) => new Date(b.date) - new Date(a.date))\<close>\<close>
  "sortByDate parseDate ps = array_sort (dateCompare parseDate) ps"

text \<open>
  The order the listing is to have: of two posts whose dates parse and differ, the one in
  front has the later date.
\<close>

fun laterFirst :: "(string \<Rightarrow> int option) \<Rightarrow> post list \<Rightarrow> bool" where
  "laterFirst parseDate [] = True"
| "laterFirst parseDate (p # ps) =
     (list_all (\<lambda>q. case parseDate (date p) of
                        None \<Rightarrow> True
                      | Some a \<Rightarrow> (case parseDate (date q) of None \<Rightarrow> True | Some b \<Rightarrow> a = b \<or> b < a))
        ps
      \<and> laterFirst parseDate ps)"


section \<open>Fetching the feed\<close>

record feed =
  feed_posts :: "post list option"

datatype body = NotJson | Json "feed option"

datatype fetch_result = FetchRejected | Response nat body

datatype exn = NetworkError | HttpError nat | SyntaxError

text \<open>
  \<open>utils.fetchJSON\<close>: the body of its \<open>try\<close>, then its \<open>catch\<close>, which logs the error and
  returns \<open>null\<close>. A parsed document that is \<open>null\<close> is \<open>None\<close> too.
\<close>

definition fetchJSON_try :: "fetch_result \<Rightarrow> exn + feed option" where
  "fetchJSON_try r =
     (case r of
        FetchRejected \<Rightarrow> Inl NetworkError
      | Response status b \<Rightarrow>
          if \<not> (200 \<le> status \<and> status \<le> 299) then Inl (HttpError status)
          else (case b of NotJson \<Rightarrow> Inl SyntaxError | Json d \<Rightarrow> Inr d))"

definition fetchJSON :: "fetch_result \<Rightarrow> feed option" where
  "fetchJSON r = (case fetchJSON_try r of Inl e \<Rightarrow> None | Inr d \<Rightarrow> d)"



section \<open>The listing component: BlogSystem\<close>

text \<open>
  The children of an element. \<open>el.innerHTML = markup\<close> replaces them by what the markup
  parses to, kept here as the markup itself; \<open>appendChild\<close> of a card adds an \<open>Article\<close>.
\<close>

record card =
  dataset_category :: string
  innerHTML :: string

datatype node = Html string | Article card

definition setInnerHTML :: "string \<Rightarrow> node list" where
  "setInnerHTML markup = (if markup = [] then [] else [Html markup])"

text \<open>
  The fields of an instance, and the two parts of the document it writes: the children of
  its container (\<open>None\<close> when the selector matches nothing) and \<open>style.display\<close> of the
  \<open>#load-more\<close> element (\<open>None\<close> when there is no such element).
\<close>

record blogSystem =
  container :: "node list option"
  postsPerPage :: nat
  isPreview :: bool
  previewCount :: nat
  posts :: "post list"
  filteredPosts :: "post list"
  currentFilter :: string
  currentPage :: nat
  isLoading :: bool
  loadMore :: "string option"

record options =
  opt_postsPerPage :: "nat option"
  opt_isPreview :: "bool option"
  opt_previewCount :: "nat option"

definition construct :: "options \<Rightarrow> node list option \<Rightarrow> string option \<Rightarrow> blogSystem" where
  \<comment> \<open>the constructor up to its call of \<open>init\<close>\<close>
  "construct opts cont lm =
     \<lparr> container = cont,
       postsPerPage = orDefault (opt_postsPerPage opts) 9,
       isPreview = (case opt_isPreview opts of None \<Rightarrow> False | Some b \<Rightarrow> b),
       previewCount = orDefault (opt_previewCount opts) 3,
       posts = [],
       filteredPosts = [],
       currentFilter = ''all'',
       currentPage = 1,
       isLoading = False,
       loadMore = lm \<rparr>"

definition showLoading_html :: string where
  \<open>showLoading_html =
     ''\<newline>      <div class="loading-state">\<newline>        <div class="loading-spinner"></div>\<newline>        <p>Lade Beitr'' @
     [CHR 0xE4] @
     ''ge...</p>\<newline>      </div>\<newline>    ''\<close>

definition showEmpty_html :: string where
  \<open>showEmpty_html =
     ''\<newline>      <div class="empty-state">\<newline>        <p>Keine Beitr'' @
     [CHR 0xE4] @
     ''ge gefunden.</p>\<newline>      </div>\<newline>    ''\<close>

definition showError_html :: "string \<Rightarrow> string" where
  \<open>showError_html message =
     ''\<newline>      <div class="error-state">\<newline>        <p>'' @
     escapeHtml message @
     ''</p>\<newline>        <button class="btn-secondary glass" onclick="window.blogSystem.init()">\<newline>          Erneut versuchen\<newline>        </button>\<newline>      </div>\<newline>    ''\<close>

definition showLoading :: "blogSystem \<Rightarrow> blogSystem" where
  "showLoading s =
     (case container s of None \<Rightarrow> s
      | Some ch \<Rightarrow> s\<lparr>container := Some (setInnerHTML showLoading_html)\<rparr>)"

definition showEmpty :: "blogSystem \<Rightarrow> blogSystem" where
  "showEmpty s =
     (case container s of None \<Rightarrow> s
      | Some ch \<Rightarrow> s\<lparr>container := Some (setInnerHTML showEmpty_html)\<rparr>)"

definition showError :: "string \<Rightarrow> blogSystem \<Rightarrow> blogSystem" where
  "showError message s =
     (case container s of None \<Rightarrow> s
      | Some ch \<Rightarrow> s\<lparr>container := Some (setInnerHTML (showError_html message))\<rparr>)"

definition loadError_message :: string where
  "loadError_message = ''Fehler beim Laden der Blog-Beitr'' @ [CHR 0xE4] @ ''ge.''"

text \<open>
  \<open>loadPosts\<close>: the body of its \<open>try\<close>, then its \<open>catch\<close>. \<open>data.posts.sort\<close> sorts the
  fetched array, \<open>[...this.posts]\<close> copies it.
\<close>

definition loadPosts_try :: "(string \<Rightarrow> int option) \<Rightarrow> fetch_result \<Rightarrow> blogSystem \<Rightarrow> exn + blogSystem" where
  "loadPosts_try parseDate r s =
     (case fetchJSON r of
        None \<Rightarrow> Inr s
      | Some d \<Rightarrow>
          (case feed_posts d of
             None \<Rightarrow> Inr s
           | Some ps \<Rightarrow>
               Inr (s\<lparr>posts := sortByDate parseDate ps,
                      filteredPosts := sortByDate parseDate ps\<rparr>)))"

definition loadPosts :: "(string \<Rightarrow> int option) \<Rightarrow> fetch_result \<Rightarrow> blogSystem \<Rightarrow> blogSystem" where
  "loadPosts parseDate r s =
     (case loadPosts_try parseDate r s of
        Inl e \<Rightarrow> showError loadError_message s
      | Inr s' \<Rightarrow> s')"

definition imageHtml :: "post \<Rightarrow> string" where
  \<open>imageHtml p =
     (if truthy (image_field p)
      then ''<img src="'' @ the (image_field p) @ ''" alt="'' @ escapeHtml (title p) @
           ''" loading="lazy">''
      else ''<div class="image-placeholder">\<newline>           <span>'' @
           take 1 (category p) @
           ''</span>\<newline>         </div>'')\<close>

definition tagChip :: "string \<Rightarrow> string" where
  \<open>tagChip tag = ''<span class="tag">'' @ escapeHtml tag @ ''</span>''\<close>

definition cardHtml :: "(string \<Rightarrow> string) \<Rightarrow> post \<Rightarrow> string" where
  \<open>cardHtml formatDate p =
     ''\<newline>      <a href="blog-post.html?id='' @
     id_field p @
     ''" class="blog-image">\<newline>        '' @
     imageHtml p @
     ''\<newline>      </a>\<newline>      <div class="blog-content">\<newline>        <div class="blog-meta">\<newline>          <span class="blog-category">'' @
     escapeHtml (category p) @
     ''</span>\<newline>          <span class="blog-date">'' @
     formatDate (date p) @
     ''</span>\<newline>          <span class="blog-read-time">'' @
     orElse (readTime p) ''5 min'' @
     ''</span>\<newline>        </div>\<newline>        <h3 class="blog-title">\<newline>          <a href="blog-post.html?id='' @
     id_field p @
     ''">'' @
     escapeHtml (title p) @
     ''</a>\<newline>        </h3>\<newline>        <p class="blog-excerpt">'' @
     escapeHtml (excerpt p) @
     ''</p>\<newline>        <div class="tags">\<newline>          '' @
     concat (map tagChip (tags p)) @
     ''\<newline>        </div>\<newline>      </div>\<newline>    ''\<close>

definition createPostCard :: "(string \<Rightarrow> string) \<Rightarrow> post \<Rightarrow> card" where
  \<comment> \<open>\<open>formatDate\<close> is \<open>utils.formatDate\<close>, the platform's \<open>toLocaleDateString\<close>\<close>
  "createPostCard formatDate p =
     \<lparr> dataset_category = slug (category p), innerHTML = cardHtml formatDate p \<rparr>"

definition updateLoadMoreButton :: "nat \<Rightarrow> blogSystem \<Rightarrow> blogSystem" where
  "updateLoadMoreButton currentEndIndex s =
     (case loadMore s of
        None \<Rightarrow> s
      | Some d \<Rightarrow>
          if isPreview s then s
          else if currentEndIndex \<ge> length (filteredPosts s)
          then s\<lparr>loadMore := Some ''none''\<rparr>
          else s\<lparr>loadMore := Some ''block''\<rparr>)"

text \<open>
  The \<open>forEach\<close> of \<open>render\<close> over the slice to show: the callback gets each post with
  its index and returns early, when appending, for the indices below \<open>skipBelow\<close>, which is
  \<open>(currentPage - 1) * postsPerPage\<close>; for the others it adds a card to the fragment.
\<close>

fun forEachCard :: "(string \<Rightarrow> string) \<Rightarrow> bool \<Rightarrow> nat \<Rightarrow> nat \<Rightarrow> post list \<Rightarrow> card list" where
  "forEachCard formatDate append_flag skipBelow index [] = []"
| "forEachCard formatDate append_flag skipBelow index (p # ps) =
     (if append_flag \<and> index < skipBelow
      then forEachCard formatDate append_flag skipBelow (Suc index) ps
      else createPostCard formatDate p # forEachCard formatDate append_flag skipBelow (Suc index) ps)"

text \<open>
  \<open>render(append)\<close>. The staggered \<open>animate-in\<close> class of \<open>animateNewCards\<close> is
  presentation only and is not modelled.
\<close>

definition render :: "(string \<Rightarrow> string) \<Rightarrow> bool \<Rightarrow> blogSystem \<Rightarrow> blogSystem" where
  "render formatDate append_flag s =
     (case container s of
        None \<Rightarrow> s
      | Some ch \<Rightarrow>
          let endIndex = (if isPreview s then previewCount s
                          else currentPage s * postsPerPage s);
              postsToShow = take endIndex (filteredPosts s);
              ch1 = (if \<not> append_flag then setInnerHTML [] else ch);
              s1 = s\<lparr>container := Some ch1\<rparr>
          in if length postsToShow = 0 then showEmpty s1
             else
               let fragment =
                     forEachCard formatDate append_flag
                       ((currentPage s - 1) * postsPerPage s) 0 postsToShow
               in updateLoadMoreButton endIndex
                    (s1\<lparr>container := Some (ch1 @ map Article fragment)\<rparr>))"

definition window :: "blogSystem \<Rightarrow> nat" where
  \<comment> \<open>\<open>endIndex\<close> of \<open>render\<close>\<close>
  "window s = (if isPreview s then previewCount s else currentPage s * postsPerPage s)"

definition setFilter :: "(string \<Rightarrow> string) \<Rightarrow> string \<Rightarrow> blogSystem \<Rightarrow> blogSystem" where
  "setFilter formatDate filt s =
     render formatDate False
       (s\<lparr>currentFilter := filt,
          currentPage := 1,
          filteredPosts :=
            (if filt = ''all'' then posts s
             else filter (\<lambda>p. slug (category p) = filt
                            \<or> list_ex (\<lambda>tag. slug tag = filt) (tags p))
                    (posts s))\<rparr>)"

definition loadMoreClick :: "(string \<Rightarrow> string) \<Rightarrow> blogSystem \<Rightarrow> blogSystem" where
  \<comment> \<open>the click listener that \<open>setupLoadMore\<close> puts on the button of \<open>#load-more\<close>\<close>
  "loadMoreClick formatDate s = render formatDate True (s\<lparr>currentPage := currentPage s + 1\<rparr>)"

definition BlogSystem_init ::
  "(string \<Rightarrow> int option) \<Rightarrow> (string \<Rightarrow> string) \<Rightarrow> fetch_result \<Rightarrow> blogSystem \<Rightarrow> blogSystem" where
  \<comment> \<open>\<open>setupFilters\<close> and \<open>setupLoadMore\<close> only register \<open>setFilter\<close> and \<open>loadMoreClick\<close>\<close>
  "BlogSystem_init parseDate formatDate r s =
     render formatDate False (loadPosts parseDate r (showLoading s))"

definition new_BlogSystem ::
  "(string \<Rightarrow> int option) \<Rightarrow> (string \<Rightarrow> string) \<Rightarrow> fetch_result \<Rightarrow>
   options \<Rightarrow> node list option \<Rightarrow> string option \<Rightarrow> blogSystem" where
  "new_BlogSystem parseDate formatDate r opts cont lm =
     (let s = construct opts cont lm
      in if container s \<noteq> None then BlogSystem_init parseDate formatDate r s else s)"


section \<open>The detail component: SinglePostLoader\<close>

text \<open>
  The query string as \<open>URLSearchParams\<close> sees it: the name and value pairs in their order;
  \<open>get\<close> returns the first value of a name, or \<open>null\<close>.
\<close>

type_synonym query = "(string \<times> string) list"

definition urlGet :: "query \<Rightarrow> string \<Rightarrow> string option" where
  "urlGet q name = map_of q name"

text \<open>
  The text of a navigation link. The arrows U+2190 and U+2192 lie outside the code units
  of the string model, so the two labels are kept as such: \<open>PrevLabel t\<close> is the arrow to
  the left, a space and \<open>t\<close>; \<open>NextLabel t\<close> is \<open>t\<close>, a space and the arrow to the right.
\<close>

datatype linkText = PlainText string | PrevLabel string | NextLabel string

record navLink =
  href :: string
  textContent :: linkText
  visibility :: string

record featured =
  featured_innerHTML :: string
  featured_display :: string

text \<open>
  The parts of the document the loader writes; an element the page does not have is
  \<open>None\<close>. \<open>postContainer\<close>, \<open>postHeader\<close> and \<open>postTags\<close> hold the \<open>innerHTML\<close> of the
  elements, the four \<open>meta\<close> fields the \<open>content\<close> attribute.
\<close>

record page =
  postContainer :: "string option"
  documentTitle :: string
  postHeader :: "string option"
  featuredImage :: "featured option"
  postTags :: "string option"
  metaDescription :: "string option"
  ogTitle :: "string option"
  ogDescription :: "string option"
  ogImage :: "string option"
  navPrev :: "navLink option"
  navNext :: "navLink option"

definition getPostIdFromUrl :: "query \<Rightarrow> string option" where
  "getPostIdFromUrl q = urlGet q ''id''"

definition loadPost :: "fetch_result \<Rightarrow> string \<Rightarrow> post option" where
  \<comment> \<open>\<open>find\<close> returns the first post whose identifier, as text, is the requested one\<close>
  "loadPost r ident =
     (case fetchJSON r of
        None \<Rightarrow> None
      | Some d \<Rightarrow>
          (case feed_posts d of
             None \<Rightarrow> None
           | Some ps \<Rightarrow> find (\<lambda>p. id_field p = ident) ps))"

definition postLoading_html :: string where
  \<open>postLoading_html =
     ''\<newline>      <div class="loading-state">\<newline>        <div class="loading-spinner"></div>\<newline>        <p>Lade Beitrag...</p>\<newline>      </div>\<newline>    ''\<close>

definition postError_html :: "string \<Rightarrow> string" where
  \<open>postError_html message =
     ''\<newline>      <div class="error-state">\<newline>        <p>'' @
     escapeHtml message @
     ''</p>\<newline>        <a href="blog.html" class="btn-primary glass">Zur'' @
     [CHR 0xFC] @
     ''ck zum Blog</a>\<newline>      </div>\<newline>    ''\<close>

definition SinglePostLoader_showLoading :: "page \<Rightarrow> page" where
  "SinglePostLoader_showLoading pg =
     (case postContainer pg of None \<Rightarrow> pg
      | Some h \<Rightarrow> pg\<lparr>postContainer := Some postLoading_html\<rparr>)"

definition SinglePostLoader_showError :: "string \<Rightarrow> page \<Rightarrow> page" where
  "SinglePostLoader_showError message pg =
     (case postContainer pg of None \<Rightarrow> pg
      | Some h \<Rightarrow> pg\<lparr>postContainer := Some (postError_html message)\<rparr>)"

definition postHeader_html :: "(string \<Rightarrow> string) \<Rightarrow> post \<Rightarrow> string" where
  \<open>postHeader_html formatDate p =
     ''\<newline>        <div class="container">\<newline>          <div class="post-meta">\<newline>            <span class="post-category">'' @
     escapeHtml (category p) @
     ''</span>\<newline>            <span class="post-date">'' @
     formatDate (date p) @
     ''</span>\<newline>            <span class="post-read-time">'' @
     orElse (readTime p) ''5 min'' @
     '' Lesezeit</span>\<newline>          </div>\<newline>          <h1 class="post-title">'' @
     escapeHtml (title p) @
     ''</h1>\<newline>          <div class="post-author">\<newline>            <img src="images/profile/leon-small.jpg" alt="'' @
     escapeHtml (author p) @
     ''" onerror="this.style.display='none'">\<newline>            <span>von '' @
     escapeHtml (author p) @
     ''</span>\<newline>          </div>\<newline>        </div>\<newline>      ''\<close>

definition featuredImage_html :: "post \<Rightarrow> string" where
  \<open>featuredImage_html p =
     ''<img src="'' @ the (image_field p) @ ''" alt="'' @ escapeHtml (title p) @ ''">''\<close>

definition postContent_html :: "post \<Rightarrow> string" where
  \<comment> \<open>\<open>post.content || `<p>${utils.escapeHtml(post.excerpt)}</p>`\<close>\<close>
  "postContent_html p = orElse (content p) (''<p>'' @ escapeHtml (excerpt p) @ ''</p>'')"

text \<open>
  \<open>render(post)\<close> up to its last statement, the call of \<open>setupNavigation\<close>, which is
  modelled next and suspends at once on its own fetch.
\<close>

definition SinglePostLoader_render :: "(string \<Rightarrow> string) \<Rightarrow> post \<Rightarrow> page \<Rightarrow> page" where
  "SinglePostLoader_render formatDate p pg =
     (let pg1 = pg\<lparr>documentTitle := title p @ '' | Leonic's World''\<rparr>;
          pg2 = (case postHeader pg1 of None \<Rightarrow> pg1
                 | Some h \<Rightarrow> pg1\<lparr>postHeader := Some (postHeader_html formatDate p)\<rparr>);
          pg3 = (case featuredImage pg2 of None \<Rightarrow> pg2
                 | Some f \<Rightarrow>
                     if truthy (image_field p)
                     then pg2\<lparr>featuredImage := Some (f\<lparr>featured_innerHTML := featuredImage_html p\<rparr>)\<rparr>
                     else pg2\<lparr>featuredImage := Some (f\<lparr>featured_display := ''none''\<rparr>)\<rparr>);
          pg4 = (case postContainer pg3 of None \<Rightarrow> pg3
                 | Some h \<Rightarrow> pg3\<lparr>postContainer := Some (postContent_html p)\<rparr>)
      in (case postTags pg4 of None \<Rightarrow> pg4
          | Some h \<Rightarrow> pg4\<lparr>postTags := Some (concat (map tagChip (tags p)))\<rparr>))"

text \<open>
  \<open>findIndex\<close> returns -1 when no element matches, and an index outside the array reads
  \<open>undefined\<close>.
\<close>

fun findIndexFrom :: "('a \<Rightarrow> bool) \<Rightarrow> int \<Rightarrow> 'a list \<Rightarrow> int" where
  "findIndexFrom P i [] = -1"
| "findIndexFrom P i (x # xs) = (if P x then i else findIndexFrom P (i + 1) xs)"

definition findIndex :: "('a \<Rightarrow> bool) \<Rightarrow> 'a list \<Rightarrow> int" where
  "findIndex P xs = findIndexFrom P 0 xs"

definition at_index :: "'a list \<Rightarrow> int \<Rightarrow> 'a option" where
  "at_index xs i = (if 0 \<le> i \<and> i < int (length xs) then Some (xs ! nat i) else None)"

definition setupNavigation ::
  "(string \<Rightarrow> int option) \<Rightarrow> fetch_result \<Rightarrow> post \<Rightarrow> page \<Rightarrow> page" where
  "setupNavigation parseDate r currentPost pg =
     (case fetchJSON r of
        None \<Rightarrow> pg
      | Some d \<Rightarrow>
          (case feed_posts d of
             None \<Rightarrow> pg
           | Some ps \<Rightarrow>
               let sorted = sortByDate parseDate ps;
                   currentIndex = findIndex (\<lambda>p. id_field p = id_field currentPost) sorted;
                   prevPost = at_index sorted (currentIndex + 1);
                   nextPost = at_index sorted (currentIndex - 1);
                   pg1 = (case navPrev pg of None \<Rightarrow> pg
                          | Some l \<Rightarrow>
                              (case prevPost of
                                 Some q \<Rightarrow>
                                   pg\<lparr>navPrev := Some (l\<lparr>href := ''blog-post.html?id='' @ id_field q,
                                                            textContent := PrevLabel (title q)\<rparr>)\<rparr>
                               | None \<Rightarrow> pg\<lparr>navPrev := Some (l\<lparr>visibility := ''hidden''\<rparr>)\<rparr>))
               in (case navNext pg1 of None \<Rightarrow> pg1
                   | Some l \<Rightarrow>
                       (case nextPost of
                          Some q \<Rightarrow>
                            pg1\<lparr>navNext := Some (l\<lparr>href := ''blog-post.html?id='' @ id_field q,
                                                      textContent := NextLabel (title q)\<rparr>)\<rparr>
                        | None \<Rightarrow> pg1\<lparr>navNext := Some (l\<lparr>visibility := ''hidden''\<rparr>)\<rparr>))))"

definition updateMetaTags :: "post \<Rightarrow> page \<Rightarrow> page" where
  "updateMetaTags p pg =
     (let pg1 = (case metaDescription pg of None \<Rightarrow> pg
                 | Some c \<Rightarrow> pg\<lparr>metaDescription := Some (excerpt p)\<rparr>);
          pg2 = (case ogTitle pg1 of None \<Rightarrow> pg1
                 | Some c \<Rightarrow> pg1\<lparr>ogTitle := Some (title p)\<rparr>);
          pg3 = (case ogDescription pg2 of None \<Rightarrow> pg2
                 | Some c \<Rightarrow> pg2\<lparr>ogDescription := Some (excerpt p)\<rparr>)
      in if truthy (image_field p)
         then (case ogImage pg3 of None \<Rightarrow> pg3
               | Some c \<Rightarrow> pg3\<lparr>ogImage := Some (the (image_field p))\<rparr>)
         else pg3)"

definition noPost_message :: string where
  "noPost_message = ''Kein Beitrag angegeben.''"

definition notFound_message :: string where
  "notFound_message = ''Beitrag nicht gefunden.''"

text \<open>
  \<open>init\<close>, with the query string of the page and the results of the two fetches: that of
  \<open>loadPost\<close> and that of \<open>setupNavigation\<close>, whose continuation runs after
  \<open>updateMetaTags\<close>. \<open>!postId\<close> holds for \<open>null\<close> and for the empty string.
\<close>

definition SinglePostLoader_init ::
  "(string \<Rightarrow> int option) \<Rightarrow> (string \<Rightarrow> string) \<Rightarrow> query \<Rightarrow> fetch_result \<Rightarrow> fetch_result \<Rightarrow>
   page \<Rightarrow> page" where
  "SinglePostLoader_init parseDate formatDate q r1 r2 pg =
     (if \<not> truthy (getPostIdFromUrl q) then SinglePostLoader_showError noPost_message pg
      else
        let postId = the (getPostIdFromUrl q);
            pg1 = SinglePostLoader_showLoading pg
        in (case loadPost r1 postId of
              Some p \<Rightarrow>
                setupNavigation parseDate r2 p
                  (updateMetaTags p (SinglePostLoader_render formatDate p pg1))
            | None \<Rightarrow> SinglePostLoader_showError notFound_message pg1))"

definition new_SinglePostLoader ::
  "(string \<Rightarrow> int option) \<Rightarrow> (string \<Rightarrow> string) \<Rightarrow> query \<Rightarrow> fetch_result \<Rightarrow> fetch_result \<Rightarrow>
   page \<Rightarrow> page" where
  "new_SinglePostLoader parseDate formatDate q r1 r2 pg =
     (if postContainer pg \<noteq> None then SinglePostLoader_init parseDate formatDate q r1 r2 pg
      else pg)"


section \<open>The intro overlays\<close>

subsection \<open>StarfieldLoader\<close>

text \<open>
  What the loader reads from the page when it is constructed: which of its elements
  exist (\<open>env_canvas\<close>: the canvas exists and gives a 2d context), the session item
  \<open>loaderShown\<close>, the query string, the reduced-motion media query, and whether
  \<open>document.readyState\<close> is already \<open>complete\<close>.
\<close>

record loaderEnv =
  env_overlay :: bool
  env_canvas :: bool
  env_skipBtn :: bool
  env_progress :: bool
  env_sessionItem :: "string option"
  env_query :: query
  env_reducedMotion :: bool
  env_readyComplete :: bool

text \<open>
  The callbacks the loader hands to \<open>setTimeout\<close> and \<open>requestAnimationFrame\<close>: the
  fallback timer, the minimum-display timer of \<open>onResourcesLoaded\<close>, the two nested timers
  of \<open>complete\<close>, the next frame of \<open>animateStarfield\<close> and the frame of \<open>startProgress\<close>.
\<close>

datatype timer = Fallback | MinDisplay | FadeOut | Cleanup | Frame | ProgressFrame

text \<open>
  The state: the three flags of \<open>this.state\<close>; which listeners are registered; the overlay
  (its classes, and whether it is still in the document), the class of \<open>body\<close>, the session
  item; the starfield (\<open>animationId\<close> is set, frames drawn); the callbacks scheduled and not
  yet run. \<open>completions\<close>, \<open>dispatched\<close> and \<open>reveals\<close> count the runs of the body of
  \<open>complete\<close> behind its guard, the \<open>loaderComplete\<close> events and the calls of
  \<open>revealContent\<close>.
\<close>

record loader =
  isComplete :: bool
  isSkipped :: bool
  resourcesLoaded :: bool
  keyListener :: bool
  clickListener :: bool
  loadListener :: bool
  overlay_fadeOut :: bool
  overlay_hidden :: bool
  overlay_inDocument :: bool
  body_loaderActive :: bool
  sessionItem :: "string option"
  animationId :: bool
  framesDrawn :: nat
  progressActive :: bool
  completions :: nat
  dispatched :: nat
  reveals :: nat
  pending :: "timer list"

definition new_loader :: "loaderEnv \<Rightarrow> bool \<Rightarrow> loader" where
  \<comment> \<open>the constructor up to its call of \<open>init\<close>; \<open>active\<close>: \<open>body\<close> has the class \<open>loader-active\<close>\<close>
  "new_loader env active =
     \<lparr> isComplete = False, isSkipped = False, resourcesLoaded = False,
       keyListener = False, clickListener = False, loadListener = False,
       overlay_fadeOut = False, overlay_hidden = False, overlay_inDocument = env_overlay env,
       body_loaderActive = active, sessionItem = env_sessionItem env,
       animationId = False, framesDrawn = 0, progressActive = False,
       completions = 0, dispatched = 0, reveals = 0, pending = [] \<rparr>"

definition shouldSkip :: "loaderEnv \<Rightarrow> bool" where
  "shouldSkip env =
     (if truthy (env_sessionItem env) then True
      else if urlGet (env_query env) ''skip'' = Some ''true'' then True
      else False)"

definition revealContent :: "loader \<Rightarrow> loader" where
  \<comment> \<open>the hero classes it sets are presentation only\<close>
  "revealContent s = s\<lparr>reveals := reveals s + 1\<rparr>"

definition skipImmediately :: "loader \<Rightarrow> loader" where
  "skipImmediately s =
     revealContent (s\<lparr>overlay_inDocument := False, body_loaderActive := False\<rparr>)"

definition animateStarfield :: "loader \<Rightarrow> loader" where
  "animateStarfield s =
     (if isComplete s then s
      else s\<lparr>framesDrawn := framesDrawn s + 1, animationId := True,
             pending := pending s @ [Frame]\<rparr>)"

definition initStarfield :: "loaderEnv \<Rightarrow> loader \<Rightarrow> loader" where
  "initStarfield env s = (if \<not> env_canvas env then s else animateStarfield s)"



definition onResourcesLoaded :: "loader \<Rightarrow> loader" where
  "onResourcesLoaded s = s\<lparr>resourcesLoaded := True, pending := pending s @ [MinDisplay]\<rparr>"

definition StarfieldLoader_init :: "loaderEnv \<Rightarrow> loader \<Rightarrow> loader" where
  "StarfieldLoader_init env s =
     (if \<not> env_overlay env then s
      else if shouldSkip env then skipImmediately s
      else
        let s1 = s\<lparr>body_loaderActive := True\<rparr>;
            s2 = (if \<not> env_reducedMotion env then initStarfield env s1 else s1);
            s3 = s2\<lparr>keyListener := True, clickListener := env_skipBtn env\<rparr>;
            s4 = (if env_progress env then s3\<lparr>pending := pending s3 @ [ProgressFrame]\<rparr> else s3);
            s5 = s4\<lparr>pending := pending s4 @ [Fallback]\<rparr>
        in if env_readyComplete env then onResourcesLoaded s5
           else s5\<lparr>loadListener := True\<rparr>)"







subsection \<open>WelcomeAnimation\<close>

record skipData =
  expires :: "int option"

text \<open>
  \<open>wenv_skipData\<close> is what \<open>utils.storage.get('welcomeSkipped')\<close> returns, \<open>None\<close> for
  \<open>null\<close>; \<open>wenv_now\<close> is \<open>Date.now()\<close>.
\<close>

record welcomeEnv =
  wenv_preText :: bool
  wenv_title :: bool
  wenv_skipBtn :: bool
  wenv_progress :: bool
  wenv_skipData :: "skipData option"
  wenv_now :: int
  wenv_reducedMotion :: bool
  wenv_query :: query

text \<open>
  The continuations of \<open>startAnimation\<close> after each of its five waits, the timer of
  \<open>triggerGlitch\<close> and the timer of \<open>fadeOut\<close>.
\<close>

datatype wtimer = Step1 | Step2 | Step3 | Step4 | Step5 | GlitchOff | FadeRemove

record welcomeAnimation =
  hasSkipped :: bool
  animationComplete :: bool
  skipClickListener :: bool
  keydownOnce :: bool
  welcome_fadeOut :: bool
  welcome_inDocument :: bool
  body_welcomeActive :: bool
  preText_animate :: bool
  title_animate :: bool
  skipBtn_visible :: bool
  title_glitch :: bool
  progress_animate :: bool
  savedExpires :: "int option"
  fadeOuts :: nat
  welcomeEvents :: nat
  wpending :: "wtimer list"

definition new_welcome :: "bool \<Rightarrow> welcomeAnimation" where
  "new_welcome active =
     \<lparr> hasSkipped = False, animationComplete = False,
       skipClickListener = False, keydownOnce = False,
       welcome_fadeOut = False, welcome_inDocument = True, body_welcomeActive = active,
       preText_animate = False, title_animate = False, skipBtn_visible = False,
       title_glitch = False, progress_animate = False, savedExpires = None,
       fadeOuts = 0, welcomeEvents = 0, wpending = [] \<rparr>"

definition shouldSkipAnimation :: "welcomeEnv \<Rightarrow> bool" where
  \<comment> \<open>\<open>skipData.expires || 0\<close> reads a missing \<open>expires\<close> as 0\<close>
  "shouldSkipAnimation env =
     (if (case wenv_skipData env of
            None \<Rightarrow> False
          | Some d \<Rightarrow> wenv_now env < (case expires d of None \<Rightarrow> 0 | Some e \<Rightarrow> e))
      then True
      else if wenv_reducedMotion env then True
      else if urlGet (wenv_query env) ''skip'' = Some ''true'' then True
      else False)"

definition revealMainContent :: "welcomeAnimation \<Rightarrow> welcomeAnimation" where
  \<comment> \<open>dispatches \<open>welcomeComplete\<close>; the hero classes it sets are presentation only\<close>
  "revealMainContent s = s\<lparr>welcomeEvents := welcomeEvents s + 1\<rparr>"

definition welcome_skipImmediately :: "welcomeAnimation \<Rightarrow> welcomeAnimation" where
  "welcome_skipImmediately s =
     revealMainContent (s\<lparr>welcome_inDocument := False, body_welcomeActive := False\<rparr>)"




definition startAnimation :: "welcomeEnv \<Rightarrow> welcomeAnimation \<Rightarrow> welcomeAnimation" where
  \<comment> \<open>up to its first \<open>await\<close>\<close>
  "startAnimation env s =
     (let s1 = (if wenv_progress env then s\<lparr>progress_animate := True\<rparr> else s)
      in s1\<lparr>wpending := wpending s1 @ [Step1]\<rparr>)"

definition setupSkipButton :: "welcomeEnv \<Rightarrow> welcomeAnimation \<Rightarrow> welcomeAnimation" where
  "setupSkipButton env s =
     (if wenv_skipBtn env then s\<lparr>skipClickListener := True, keydownOnce := True\<rparr> else s)"

definition WelcomeAnimation_init :: "welcomeEnv \<Rightarrow> welcomeAnimation \<Rightarrow> welcomeAnimation" where
  "WelcomeAnimation_init env s =
     (if shouldSkipAnimation env then welcome_skipImmediately s
      else setupSkipButton env (startAnimation env (s\<lparr>body_welcomeActive := True\<rparr>)))"







subsection \<open>What the flags guard\<close>











section \<open>The storage helpers\<close>

text \<open>
  \<open>localStorage\<close>: its items, and the two ways its methods throw, which are the
  platform's: every access is refused (\<open>ls_denied\<close>), or the quota is used up and
  \<open>setItem\<close> throws (\<open>ls_full\<close>).
\<close>

record localStorage =
  ls_items :: "string \<rightharpoonup> string"
  ls_denied :: bool
  ls_full :: bool

datatype storageError = SecurityError | QuotaExceededError | TypeError

definition getItem :: "localStorage \<Rightarrow> string \<Rightarrow> storageError + string option" where
  "getItem ls key = (if ls_denied ls then Inl SecurityError else Inr (ls_items ls key))"

definition setItem :: "localStorage \<Rightarrow> string \<Rightarrow> string \<Rightarrow> storageError + localStorage" where
  "setItem ls key v =
     (if ls_denied ls then Inl SecurityError
      else if ls_full ls then Inl QuotaExceededError
      else Inr (ls\<lparr>ls_items := (ls_items ls)(key \<mapsto> v)\<rparr>))"

definition removeItem :: "localStorage \<Rightarrow> string \<Rightarrow> storageError + localStorage" where
  "removeItem ls key =
     (if ls_denied ls then Inl SecurityError
      else Inr (ls\<lparr>ls_items := (ls_items ls)(key := None)\<rparr>))"

text \<open>
  \<open>JSON.stringify\<close> and \<open>JSON.parse\<close> are the platform's and are parameters: \<open>stringify\<close>
  returns a text, or \<open>undefined\<close> (which \<open>setItem\<close> stores as the text \<open>undefined\<close>), or
  throws; \<open>parse\<close> is \<open>None\<close> where \<open>JSON.parse\<close> throws.
\<close>

datatype stringified = Text string | Undefined | Throws

definition storage_get ::
  "(string \<Rightarrow> 'v option) \<Rightarrow> localStorage \<Rightarrow> string \<Rightarrow> 'v \<Rightarrow> 'v" where
  "storage_get parse ls key defaultValue =
     (case getItem ls key of
        Inl e \<Rightarrow> defaultValue
      | Inr item \<Rightarrow>
          if truthy item
          then (case parse (the item) of None \<Rightarrow> defaultValue | Some v \<Rightarrow> v)
          else defaultValue)"

definition storage_set ::
  "('v \<Rightarrow> stringified) \<Rightarrow> localStorage \<Rightarrow> string \<Rightarrow> 'v \<Rightarrow> bool \<times> localStorage" where
  "storage_set stringify ls key v =
     (case stringify v of
        Throws \<Rightarrow> (False, ls)
      | Undefined \<Rightarrow>
          (case setItem ls key ''undefined'' of Inl e \<Rightarrow> (False, ls) | Inr ls' \<Rightarrow> (True, ls'))
      | Text t \<Rightarrow>
          (case setItem ls key t of Inl e \<Rightarrow> (False, ls) | Inr ls' \<Rightarrow> (True, ls')))"

definition storage_remove :: "localStorage \<Rightarrow> string \<Rightarrow> bool \<times> localStorage" where
  "storage_remove ls key =
     (case removeItem ls key of Inl e \<Rightarrow> (False, ls) | Inr ls' \<Rightarrow> (True, ls'))"

text \<open>
  A value is JSON-serialisable when \<open>JSON.stringify\<close> gives a text for it that
  \<open>JSON.parse\<close> reads back as the value. A JSON text is never empty.
\<close>

definition serialisable :: "('v \<Rightarrow> stringified) \<Rightarrow> (string \<Rightarrow> 'v option) \<Rightarrow> 'v \<Rightarrow> bool" where
  "serialisable stringify parse v =
     (case stringify v of Text t \<Rightarrow> t \<noteq> [] \<and> parse t = Some v | Undefined \<Rightarrow> False | Throws \<Rightarrow> False)"


section \<open>Concrete inputs\<close>

text \<open>The posts, pages and environments at which the theorems below are instantiated.\<close>

definition examplePost :: "string \<Rightarrow> string \<Rightarrow> string list \<Rightarrow> string \<Rightarrow> post" where
  "examplePost i c ts d =
     \<lparr> id_field = i, title = ''Post '' @ i, excerpt = ''Text'', content = None,
       author = ''Leon'', category = c, tags = ts, date = d,
       image_field = None, readTime = None \<rparr>"

definition exampleParseDate :: "string \<Rightarrow> int option" where
  \<comment> \<open>the time values of three ISO dates; every other string is taken as unparseable\<close>
  "exampleParseDate d =
     (if d = ''2024-01-01'' then Some 1704067200000
      else if d = ''2024-01-02'' then Some 1704153600000
      else if d = ''2024-01-03'' then Some 1704240000000
      else None)"

definition exampleFormatDate :: "string \<Rightarrow> string" where
  "exampleFormatDate d = d"

definition exampleOptions :: "nat option \<Rightarrow> options" where
  "exampleOptions n = \<lparr> opt_postsPerPage = n, opt_isPreview = None, opt_previewCount = None \<rparr>"

definition previewOptions :: options where
  "previewOptions = \<lparr> opt_postsPerPage = None, opt_isPreview = Some True, opt_previewCount = Some 3 \<rparr>"

definition exampleFeed :: "post list \<Rightarrow> fetch_result" where
  "exampleFeed ps = Response 200 (Json (Some \<lparr> feed_posts = Some ps \<rparr>))"

definition twoPosts :: "post list" where
  "twoPosts = [examplePost ''1'' ''News'' [''Web Dev''] ''2024-01-01'',
               examplePost ''2'' ''News'' [] ''2024-01-02'']"

definition threePosts :: "post list" where
  "threePosts = [examplePost ''3'' ''News'' [] ''2024-01-03'',
                 examplePost ''2'' ''Travel Notes'' [] ''2024-01-02'',
                 examplePost ''1'' ''News'' [''Web Dev''] ''2024-01-01'']"

definition undatedPosts :: "post list" where
  "undatedPosts = [examplePost ''1'' ''News'' [] ''2024-01-01'',
                   examplePost ''2'' ''News'' [] ''soon'',
                   examplePost ''3'' ''News'' [] ''2024-01-02'']"

definition markupPost :: post where
  "markupPost = examplePost ''7'' ''<b>Tips'' [] ''2024-01-01''"

definition blogPage :: "blogSystem" where
  \<comment> \<open>the listing page after a load of \<open>twoPosts\<close> with one post per page\<close>
  "blogPage =
     new_BlogSystem exampleParseDate exampleFormatDate (exampleFeed twoPosts)
       (exampleOptions (Some 1)) (Some []) (Some [])"

definition blankBlog :: blogSystem where
  \<comment> \<open>an instance before its first load\<close>
  "blankBlog = construct (exampleOptions None) (Some []) (Some [])"



definition reducedMotionEnv :: loaderEnv where
  \<comment> \<open>a first visit with the reduced-motion preference and no skip parameter\<close>
  "reducedMotionEnv =
     \<lparr> env_overlay = True, env_canvas = True, env_skipBtn = True, env_progress = True,
       env_sessionItem = None, env_query = [], env_reducedMotion = True,
       env_readyComplete = False \<rparr>"

definition firstVisitEnv :: loaderEnv where
  "firstVisitEnv = reducedMotionEnv\<lparr>env_reducedMotion := False\<rparr>"

definition reducedMotionWelcomeEnv :: welcomeEnv where
  "reducedMotionWelcomeEnv =
     \<lparr> wenv_preText = True, wenv_title = True, wenv_skipBtn = True, wenv_progress = True,
       wenv_skipData = None, wenv_now = 1704067200000, wenv_reducedMotion = True,
       wenv_query = [] \<rparr>"


definition exampleStringify :: "bool \<Rightarrow> stringified" where
  "exampleStringify b = Text (if b then ''true'' else ''false'')"

definition exampleParse :: "string \<Rightarrow> bool option" where
  "exampleParse t =
     (if t = ''true'' then Some True else if t = ''false'' then Some False else None)"

definition emptyStorage :: localStorage where
  "emptyStorage = \<lparr> ls_items = Map.empty, ls_denied = False, ls_full = False \<rparr>"

definition storedTrue :: localStorage where
  "storedTrue = snd (storage_set exampleStringify emptyStorage ''seen'' True)"

definition deniedStorage :: localStorage where
  "deniedStorage = emptyStorage\<lparr>ls_denied := True\<rparr>"

definition brokenStorage :: localStorage where
  "brokenStorage = emptyStorage\<lparr>ls_items := [''seen'' \<mapsto> ''{oops'']\<rparr>"



section \<open>Properties of the listing component\<close>

subsection \<open>Filtering\<close>

lemma render_fields [simp]:
  "posts (render fmt a s) = posts s"
  "filteredPosts (render fmt a s) = filteredPosts s"
  "currentPage (render fmt a s) = currentPage s"
  "currentFilter (render fmt a s) = currentFilter s"
  "postsPerPage (render fmt a s) = postsPerPage s"
  "isPreview (render fmt a s) = isPreview s"
  "previewCount (render fmt a s) = previewCount s"
  by (auto simp: render_def showEmpty_def updateLoadMoreButton_def Let_def split: option.splits)

text \<open>
  The slug replaces whitespace and leaves none: one hyphen stands for each run.
\<close>

lemma hyphen_not_whitespace: "\<not> isWhiteSpace CHR ''-''"
  by (simp add: isWhiteSpace_def)

lemma replaceWhitespaceRuns_no_whitespace:
  "\<forall>c \<in> set (replaceWhitespaceRuns s). \<not> isWhiteSpace c"
proof (induction s rule: replaceWhitespaceRuns.induct)
  case 1 show ?case by simp
next
  case (2 c cs)
  show ?case
  proof (cases "isWhiteSpace c")
    case True
    with 2 show ?thesis by (simp add: hyphen_not_whitespace)
  next
    case False
    with 2 show ?thesis by simp
  qed
qed

lemma replaceWhitespaceRuns_id:
  "\<forall>c \<in> set s. \<not> isWhiteSpace c \<Longrightarrow> replaceWhitespaceRuns s = s"
proof (induction s)
  case Nil then show ?case by simp
next
  case (Cons a s)
  then have "\<not> isWhiteSpace a" and "replaceWhitespaceRuns s = s" by simp_all
  then show ?case by simp
qed

lemma replaceWhitespaceRuns_run:
  assumes "w \<noteq> []" "\<forall>c \<in> set w. isWhiteSpace c" "\<forall>c \<in> set a. \<not> isWhiteSpace c"
    and "b = [] \<or> \<not> isWhiteSpace (hd b)"
  shows "replaceWhitespaceRuns (a @ w @ b) = a @ ''-'' @ replaceWhitespaceRuns b"
proof -
  obtain c cs where w: "w = c # cs" using assms(1) by (cases w) auto
  have "dropWhile isWhiteSpace (cs @ b) = b"
    using assms(2,4) w by (cases b) (simp_all add: dropWhile_append)
  then have "replaceWhitespaceRuns (w @ b) = ''-'' @ replaceWhitespaceRuns b"
    using assms(2) w by simp
  then show ?thesis using assms(3) by (induction a) simp_all
qed

lemma slug_examples:
  "slug ''News'' = ''news''" "slug ''Web Dev'' = ''web-dev''"
  by code_simp+

text \<open>
  C2. \<open>setFilter('all')\<close> makes \<open>filteredPosts\<close> the stored post list, in its order;
  \<open>setFilter(s)\<close> for another \<open>s\<close> makes it the posts, in their order, whose category slug is
  \<open>s\<close> or one of whose tag slugs is \<open>s\<close>; both put the current page back to 1.
\<close>

theorem setFilter_filteredPosts:
  "filteredPosts (setFilter fmt filt s) =
     (if filt = ''all'' then posts s
      else filter (\<lambda>p. slug (category p) = filt \<or> (\<exists>tag \<in> set (tags p). slug tag = filt))
             (posts s))
   \<and> posts (setFilter fmt filt s) = posts s
   \<and> currentFilter (setFilter fmt filt s) = filt
   \<and> currentPage (setFilter fmt filt s) = 1"
  by (simp add: setFilter_def list_ex_iff)

lemma blogPage_posts:
  "posts blogPage = [examplePost ''2'' ''News'' [] ''2024-01-02'',
                     examplePost ''1'' ''News'' [''Web Dev''] ''2024-01-01'']"
  by code_simp

theorem setFilter_filteredPosts_witness:
  "filteredPosts (setFilter exampleFormatDate ''web-dev'' blogPage)
     = [examplePost ''1'' ''News'' [''Web Dev''] ''2024-01-01'']
   \<and> currentPage (setFilter exampleFormatDate ''web-dev'' blogPage) = 1
   \<and> filteredPosts (setFilter exampleFormatDate ''all'' blogPage) = posts blogPage"
  using setFilter_filteredPosts[of exampleFormatDate "''web-dev''" blogPage]
    setFilter_filteredPosts[of exampleFormatDate "''all''" blogPage]
  by (simp add: blogPage_posts examplePost_def slug_examples)


subsection \<open>Pagination\<close>

lemma forEachCard_eq:
  "forEachCard fmt a k i ps =
     map (createPostCard fmt) (if a then drop (k - i) ps else ps)"
proof (induction ps arbitrary: i)
  case Nil then show ?case by simp
next
  case (Cons p ps)
  show ?case
  proof (cases "a \<and> i < k")
    case True
    then have "k - i = Suc (k - Suc i)" by arith
    with True Cons.IH[of "Suc i"] show ?thesis by simp
  next
    case False
    then have "a \<Longrightarrow> k - i = 0" "a \<Longrightarrow> k - Suc i = 0" by auto
    with False Cons.IH[of "Suc i"] show ?thesis by (cases a) simp_all
  qed
qed

lemma render_fresh_container:
  assumes "container s = Some ch"
  shows "container (render fmt False s) =
           (if take (window s) (filteredPosts s) = [] then Some [Html showEmpty_html]
            else Some (map (\<lambda>p. Article (createPostCard fmt p)) (take (window s) (filteredPosts s))))"
  using assms
  by (simp add: render_def showEmpty_def updateLoadMoreButton_def Let_def setInnerHTML_def
      forEachCard_eq showEmpty_html_def comp_def window_def split: option.splits)

lemma render_append_container:
  assumes "container s = Some ch"
  shows "container (render fmt True s) =
           (if take (window s) (filteredPosts s) = [] then Some [Html showEmpty_html]
            else Some (ch @ map (\<lambda>p. Article (createPostCard fmt p))
                   (drop ((currentPage s - 1) * postsPerPage s) (take (window s) (filteredPosts s)))))"
  using assms
  by (simp add: render_def showEmpty_def updateLoadMoreButton_def Let_def setInnerHTML_def
      forEachCard_eq showEmpty_html_def comp_def window_def split: option.splits)

lemma render_loadMore:
  "loadMore (render fmt a s) =
     (if container s = None \<or> take (window s) (filteredPosts s) = [] \<or> isPreview s \<or> loadMore s = None
      then loadMore s
      else if window s \<ge> length (filteredPosts s) then Some ''none'' else Some ''block'')"
  by (simp add: render_def showEmpty_def updateLoadMoreButton_def Let_def window_def split: option.splits)

lemma render_container_some:
  "container s \<noteq> None \<Longrightarrow> container (render fmt a s) \<noteq> None"
  by (auto simp: render_def showEmpty_def updateLoadMoreButton_def Let_def split: option.splits)

lemma take_take_drop: "a \<le> b \<Longrightarrow> take a xs @ drop a (take b xs) = take b xs"
proof -
  assume "a \<le> b"
  then have "take a xs = take a (take b xs)" by (simp add: min_def)
  then show ?thesis by (simp only: append_take_drop_id)
qed

lemma loadMoreClick_fields [simp]:
  "posts (loadMoreClick fmt s) = posts s"
  "filteredPosts (loadMoreClick fmt s) = filteredPosts s"
  "currentPage (loadMoreClick fmt s) = currentPage s + 1"
  "postsPerPage (loadMoreClick fmt s) = postsPerPage s"
  "isPreview (loadMoreClick fmt s) = isPreview s"
  by (simp_all add: loadMoreClick_def)

lemma clicks_fields [simp]:
  "filteredPosts ((loadMoreClick fmt ^^ n) s) = filteredPosts s"
  "currentPage ((loadMoreClick fmt ^^ n) s) = currentPage s + n"
  "postsPerPage ((loadMoreClick fmt ^^ n) s) = postsPerPage s"
  "isPreview ((loadMoreClick fmt ^^ n) s) = isPreview s"
  by (induction n) simp_all

lemma clicks_container_some:
  "container s \<noteq> None \<Longrightarrow> container ((loadMoreClick fmt ^^ n) s) \<noteq> None"
  by (induction n) (simp_all add: loadMoreClick_def render_container_some)

lemma clicks_container:
  assumes np: "\<not> isPreview s" and pp: "0 < postsPerPage s" and ne: "filteredPosts s \<noteq> []"
    and pg: "currentPage s = 1"
    and c0: "container s = Some (map (\<lambda>p. Article (createPostCard fmt p))
                (take (postsPerPage s) (filteredPosts s)))"
  shows "container ((loadMoreClick fmt ^^ n) s) =
           Some (map (\<lambda>p. Article (createPostCard fmt p))
                  (take ((n + 1) * postsPerPage s) (filteredPosts s)))"
proof (induction n)
  case 0
  show ?case using c0 by simp
next
  case (Suc n)
  let ?t = "(loadMoreClick fmt ^^ n) s"
  let ?t' = "?t\<lparr>currentPage := currentPage ?t + 1\<rparr>"
  have cont: "container ?t' = Some (map (\<lambda>p. Article (createPostCard fmt p))
                  (take ((n + 1) * postsPerPage s) (filteredPosts s)))"
    using Suc.IH by simp
  have w: "window ?t' = (n + 2) * postsPerPage s"
    using np pg by (simp add: window_def)
  have nonempty: "take (window ?t') (filteredPosts ?t') \<noteq> []"
    using ne pp w by simp
  have "container (render fmt True ?t') =
          Some (map (\<lambda>p. Article (createPostCard fmt p)) (take ((n + 1) * postsPerPage s) (filteredPosts s))
             @ map (\<lambda>p. Article (createPostCard fmt p))
                 (drop ((n + 1) * postsPerPage s) (take ((n + 2) * postsPerPage s) (filteredPosts s))))"
    using render_append_container[OF cont, of fmt] nonempty w pg by simp
  also have "\<dots> = Some (map (\<lambda>p. Article (createPostCard fmt p))
                  (take ((n + 2) * postsPerPage s) (filteredPosts s)))"
    using take_take_drop[of "(n + 1) * postsPerPage s" "(n + 2) * postsPerPage s" "filteredPosts s"]
    by (simp flip: map_append)
  finally have r: "container (render fmt True ?t') =
      Some (map (\<lambda>p. Article (createPostCard fmt p))
                  (take ((Suc n + 1) * postsPerPage s) (filteredPosts s)))" by simp
  have "(loadMoreClick fmt ^^ Suc n) s = loadMoreClick fmt ?t" by simp
  also have "\<dots> = render fmt True ?t'" by (rule loadMoreClick_def)
  finally show ?case using r by (simp only:)
qed

lemma clicks_loadMore:
  assumes np: "\<not> isPreview s" and pp: "0 < postsPerPage s" and ne: "filteredPosts s \<noteq> []"
    and pg: "currentPage s = 1" and ct: "container s \<noteq> None"
    and l0: "loadMore s = Some (if postsPerPage s \<ge> length (filteredPosts s) then ''none'' else ''block'')"
  shows "loadMore ((loadMoreClick fmt ^^ n) s) =
           Some (if (n + 1) * postsPerPage s \<ge> length (filteredPosts s) then ''none'' else ''block'')"
proof (induction n)
  case 0
  show ?case using l0 by simp
next
  case (Suc n)
  let ?t = "(loadMoreClick fmt ^^ n) s"
  let ?t' = "?t\<lparr>currentPage := currentPage ?t + 1\<rparr>"
  have ct': "container ?t' \<noteq> None"
    using clicks_container_some[OF ct, where fmt=fmt and n=n] by simp
  have w: "window ?t' = (n + 2) * postsPerPage s"
    using np pg by (simp add: window_def)
  have nonempty: "take (window ?t') (filteredPosts ?t') \<noteq> []"
    using ne pp w by simp
  have lm: "loadMore ?t' \<noteq> None" using Suc.IH by simp
  have r: "loadMore (render fmt True ?t') =
          Some (if (Suc n + 1) * postsPerPage s \<ge> length (filteredPosts s) then ''none'' else ''block'')"
    using ct' nonempty lm np w pp by (auto simp: render_loadMore)
  have "(loadMoreClick fmt ^^ Suc n) s = loadMoreClick fmt ?t" by simp
  also have "\<dots> = render fmt True ?t'" by (rule loadMoreClick_def)
  finally show ?case using r by (simp only:)
qed

text \<open>
  Where the filter matches at least one post, the listing is the paginated window: after a
  change of filter and \<open>n\<close> clicks on the load-more control, the container holds the cards
  of the first \<open>(n + 1) * postsPerPage\<close> filtered posts, and the control is hidden exactly
  when that window covers the filtered list.
\<close>

lemma pagination_window:
  assumes ct: "container s \<noteq> None" and np: "\<not> isPreview s" and pp: "0 < postsPerPage s"
    and lm: "loadMore s \<noteq> None"
    and ne: "filteredPosts (setFilter fmt filt s) \<noteq> []"
  shows "container ((loadMoreClick fmt ^^ n) (setFilter fmt filt s)) =
           Some (map (\<lambda>p. Article (createPostCard fmt p))
                  (take ((n + 1) * postsPerPage s) (filteredPosts (setFilter fmt filt s))))"
    and "loadMore ((loadMoreClick fmt ^^ n) (setFilter fmt filt s)) =
           Some (if (n + 1) * postsPerPage s \<ge> length (filteredPosts (setFilter fmt filt s))
                 then ''none'' else ''block'')"
proof -
  let ?u = "s\<lparr>currentFilter := filt, currentPage := 1,
              filteredPosts := filteredPosts (setFilter fmt filt s)\<rparr>"
  let ?s = "setFilter fmt filt s"
  have fp: "filteredPosts ?s = (if filt = ''all'' then posts s
             else filter (\<lambda>p. slug (category p) = filt \<or> list_ex (\<lambda>tag. slug tag = filt) (tags p))
                    (posts s))"
    by (simp add: setFilter_def)
  have sf: "?s = render fmt False ?u"
    unfolding fp by (simp add: setFilter_def)
  obtain ch where ch: "container ?u = Some ch" using ct by auto
  have w: "window ?u = postsPerPage s" using np by (simp add: window_def)
  have tk: "take (postsPerPage s) (filteredPosts ?s) \<noteq> []" using ne pp by simp
  have c0: "container ?s = Some (map (\<lambda>p. Article (createPostCard fmt p))
                (take (postsPerPage ?s) (filteredPosts ?s)))"
    using render_fresh_container[OF ch, of fmt] tk w sf by (simp add: setFilter_def)
  have l0: "loadMore ?s = Some (if postsPerPage ?s \<ge> length (filteredPosts ?s) then ''none'' else ''block'')"
    using render_loadMore[of fmt False ?u] tk w sf ct np lm by (simp add: setFilter_def)
  have np': "\<not> isPreview ?s" using np by (simp add: setFilter_def)
  have pp': "0 < postsPerPage ?s" using pp by (simp add: setFilter_def)
  have pg': "currentPage ?s = 1" by (simp add: setFilter_def)
  have ct': "container ?s \<noteq> None" using c0 by simp
  have pps: "postsPerPage ?s = postsPerPage s" by (simp add: setFilter_def)
  show "container ((loadMoreClick fmt ^^ n) ?s) =
           Some (map (\<lambda>p. Article (createPostCard fmt p))
                  (take ((n + 1) * postsPerPage s) (filteredPosts ?s)))"
    using clicks_container[OF np' pp' ne pg' c0, where n=n] by (simp only: pps)
  show "loadMore ((loadMoreClick fmt ^^ n) ?s) =
           Some (if (n + 1) * postsPerPage s \<ge> length (filteredPosts ?s)
                 then ''none'' else ''block'')"
    using clicks_loadMore[OF np' pp' ne pg' ct' l0, where fmt=fmt and n=n] by (simp only: pps)
qed

text \<open>
  In preview mode a render shows the first \<open>previewCount\<close> filtered posts and leaves the
  load-more control as it was.
\<close>

lemma preview_render:
  assumes ct: "container s \<noteq> None" and pv: "isPreview s"
  shows "container (render fmt False s) =
           Some (if take (previewCount s) (filteredPosts s) = [] then [Html showEmpty_html]
                 else map (\<lambda>p. Article (createPostCard fmt p))
                        (take (previewCount s) (filteredPosts s)))"
    and "loadMore (render fmt a s) = loadMore s"
proof -
  obtain ch where ch: "container s = Some ch" using ct by auto
  show "container (render fmt False s) =
           Some (if take (previewCount s) (filteredPosts s) = [] then [Html showEmpty_html]
                 else map (\<lambda>p. Article (createPostCard fmt p))
                        (take (previewCount s) (filteredPosts s)))"
    using render_fresh_container[OF ch, of fmt] pv by (simp add: window_def)
  show "loadMore (render fmt a s) = loadMore s"
    using pv by (simp add: render_loadMore)
qed

text \<open>
  C1. The listing page holds two posts, one per page, so that the first render shows one
  card and the load-more control. The filter \<open>travel\<close> then matches no post: the window
  \<open>1 * 1\<close> covers the empty filtered list, the container shows the empty state, and the
  control, which \<open>render\<close> leaves before it reaches \<open>updateLoadMoreButton\<close>, is still shown.
\<close>

theorem loadMore_left_visible:
  "filteredPosts (setFilter exampleFormatDate ''travel'' blogPage) = []
   \<and> container (setFilter exampleFormatDate ''travel'' blogPage) = Some [Html showEmpty_html]
   \<and> currentPage (setFilter exampleFormatDate ''travel'' blogPage)
       * postsPerPage (setFilter exampleFormatDate ''travel'' blogPage)
       \<ge> length (filteredPosts (setFilter exampleFormatDate ''travel'' blogPage))
   \<and> loadMore blogPage = Some ''block''
   \<and> loadMore (setFilter exampleFormatDate ''travel'' blogPage) = Some ''block''"
  by code_simp


subsection \<open>Loading\<close>


lemma fetchJSON_failure:
  "fetchJSON FetchRejected = None"
  "\<not> (200 \<le> st \<and> st \<le> 299) \<Longrightarrow> fetchJSON (Response st b) = None"
  "fetchJSON (Response st NotJson) = None"
  by (simp_all add: fetchJSON_def fetchJSON_try_def)

text \<open>
  \<open>fetchJSON\<close> catches every failure itself, so the \<open>catch\<close> block of \<open>loadPosts\<close> is never
  entered, and a load that fails leaves the instance as it was.
\<close>

lemma loadPosts_try_returns: "\<exists>s'. loadPosts_try parseDate r s = Inr s'"
  by (simp add: loadPosts_try_def split: option.splits)

lemma loadPosts_failure: "fetchJSON r = None \<Longrightarrow> loadPosts parseDate r s = s"
  by (simp add: loadPosts_def loadPosts_try_def)

lemma init_after_failure:
  assumes "fetchJSON r = None" "container s \<noteq> None" "filteredPosts s = []"
  shows "container (BlogSystem_init parseDate fmt r s) = Some [Html showEmpty_html]"
proof -
  obtain ch where "container (showLoading s) = Some ch"
    using assms(2) by (auto simp: showLoading_def)
  then show ?thesis
    using assms(1,3) render_fresh_container[of "showLoading s" ch fmt]
    by (simp add: BlogSystem_init_def loadPosts_failure showLoading_def split: option.splits)
qed

text \<open>
  C3. A rejected fetch, a response that is not OK and a body that is not JSON each leave a
  new listing with the empty state in its container, which is not the error state with
  the retry button.
\<close>

theorem fetch_failure_renders_empty_state:
  "container (new_BlogSystem exampleParseDate exampleFormatDate FetchRejected
                (exampleOptions None) (Some []) (Some []))
     = Some [Html showEmpty_html]
   \<and> container (new_BlogSystem exampleParseDate exampleFormatDate (Response 404 NotJson)
                (exampleOptions None) (Some []) (Some []))
     = Some [Html showEmpty_html]
   \<and> container (new_BlogSystem exampleParseDate exampleFormatDate (Response 200 NotJson)
                (exampleOptions None) (Some []) (Some []))
     = Some [Html showEmpty_html]
   \<and> showEmpty_html \<noteq> showError_html loadError_message"
  by code_simp


subsection \<open>Sorting\<close>

lemma mset_sortInsert: "mset (sortInsert c x ys) = add_mset x (mset ys)"
  by (induction ys) simp_all

lemma mset_array_sort: "mset (array_sort c xs) = mset xs"
  by (induction xs) (simp_all add: array_sort_def mset_sortInsert)

lemma set_sortInsert: "set (sortInsert c x ys) = insert x (set ys)"
  by (induction ys) auto

lemma set_array_sort: "set (array_sort c xs) = set xs"
  by (induction xs) (simp_all add: array_sort_def set_sortInsert)

lemma sortCompare_date:
  assumes "parseDate (date a) \<noteq> None" "parseDate (date b) \<noteq> None"
  shows "sortCompare (dateCompare parseDate) a b = dateValue parseDate b - dateValue parseDate a"
  using assms by (auto simp: sortCompare_def dateCompare_def dateValue_def)

lemma sorted_sortInsert:
  assumes "parseDate (date x) \<noteq> None" "\<forall>y \<in> set ys. parseDate (date y) \<noteq> None"
    and "sorted_wrt (\<lambda>a b. dateValue parseDate a \<ge> dateValue parseDate b) ys"
  shows "sorted_wrt (\<lambda>a b. dateValue parseDate a \<ge> dateValue parseDate b)
           (sortInsert (dateCompare parseDate) x ys)"
  using assms
proof (induction ys)
  case Nil then show ?case by simp
next
  case (Cons y ys)
  have c: "sortCompare (dateCompare parseDate) x y = dateValue parseDate y - dateValue parseDate x"
    using Cons.prems by (simp add: sortCompare_date)
  show ?case
  proof (cases "sortCompare (dateCompare parseDate) x y \<le> 0")
    case True
    then have "dateValue parseDate y \<le> dateValue parseDate x" using c by simp
    with True Cons.prems show ?thesis by fastforce
  next
    case False
    then have "dateValue parseDate x \<le> dateValue parseDate y" using c by simp
    with False Cons show ?thesis by (auto simp: set_sortInsert)
  qed
qed

lemma sorted_sortByDate:
  assumes "\<forall>p \<in> set ps. parseDate (date p) \<noteq> None"
  shows "sorted_wrt (\<lambda>a b. dateValue parseDate a \<ge> dateValue parseDate b) (sortByDate parseDate ps)"
  using assms
proof (induction ps)
  case Nil then show ?case by (simp add: sortByDate_def array_sort_def)
next
  case (Cons p ps)
  have "sorted_wrt (\<lambda>a b. dateValue parseDate a \<ge> dateValue parseDate b)
          (sortInsert (dateCompare parseDate) p (sortByDate parseDate ps))"
    using Cons by (intro sorted_sortInsert) (simp_all add: sortByDate_def set_array_sort)
  then show ?case by (simp add: sortByDate_def array_sort_def)
qed

lemma filter_sortInsert:
  assumes "parseDate (date x) \<noteq> None" "\<forall>y \<in> set ys. parseDate (date y) \<noteq> None"
    and "sorted_wrt (\<lambda>a b. dateValue parseDate a \<ge> dateValue parseDate b) ys"
  shows "filter (\<lambda>p. parseDate (date p) = k) (sortInsert (dateCompare parseDate) x ys)
       = (if parseDate (date x) = k then x # filter (\<lambda>p. parseDate (date p) = k) ys
          else filter (\<lambda>p. parseDate (date p) = k) ys)"
  using assms
proof (induction ys)
  case Nil then show ?case by simp
next
  case (Cons y ys)
  have c: "sortCompare (dateCompare parseDate) x y = dateValue parseDate y - dateValue parseDate x"
    using Cons.prems by (simp add: sortCompare_date)
  show ?case
  proof (cases "sortCompare (dateCompare parseDate) x y \<le> 0")
    case True
    then show ?thesis by simp
  next
    case False
    then have lt: "dateValue parseDate x < dateValue parseDate y" using c by simp
    then have ne: "parseDate (date x) \<noteq> parseDate (date y)" by (auto simp: dateValue_def)
    have ih: "filter (\<lambda>p. parseDate (date p) = k) (sortInsert (dateCompare parseDate) x ys)
       = (if parseDate (date x) = k then x # filter (\<lambda>p. parseDate (date p) = k) ys
          else filter (\<lambda>p. parseDate (date p) = k) ys)"
      using Cons by simp
    show ?thesis using False ne ih by auto
  qed
qed

lemma stable_sortByDate:
  assumes "\<forall>p \<in> set ps. parseDate (date p) \<noteq> None"
  shows "filter (\<lambda>p. parseDate (date p) = k) (sortByDate parseDate ps)
       = filter (\<lambda>p. parseDate (date p) = k) ps"
  using assms
proof (induction ps)
  case Nil then show ?case by (simp add: sortByDate_def array_sort_def)
next
  case (Cons p ps)
  have s: "sorted_wrt (\<lambda>a b. dateValue parseDate a \<ge> dateValue parseDate b) (sortByDate parseDate ps)"
    using Cons.prems by (simp add: sorted_sortByDate)
  have "filter (\<lambda>p. parseDate (date p) = k) (sortInsert (dateCompare parseDate) p (sortByDate parseDate ps))
      = (if parseDate (date p) = k then p # filter (\<lambda>p. parseDate (date p) = k) (sortByDate parseDate ps)
          else filter (\<lambda>p. parseDate (date p) = k) (sortByDate parseDate ps))"
    using Cons.prems s by (intro filter_sortInsert) (simp_all add: sortByDate_def set_array_sort)
  then show ?case using Cons by (simp add: sortByDate_def array_sort_def)
qed


lemma laterFirst_sorted:
  "sorted_wrt (\<lambda>a b. dateValue parseDate a \<ge> dateValue parseDate b) ps \<Longrightarrow> laterFirst parseDate ps"
  by (induction ps) (auto simp: list_all_iff dateValue_def split: option.splits)

lemma loadPosts_posts:
  "200 \<le> st \<Longrightarrow> st \<le> 299 \<Longrightarrow>
   posts (loadPosts parseDate (Response st (Json (Some \<lparr> feed_posts = Some ps \<rparr>))) s)
     = sortByDate parseDate ps"
  by (simp add: loadPosts_def loadPosts_try_def fetchJSON_def fetchJSON_try_def)

text \<open>
  C4, amended. When every date of the fetched array parses, the list \<open>loadPosts\<close> stores
  is a permutation of the array in which a post with a later date stands before every
  post with an earlier one, and the posts of one date keep their order.
\<close>

theorem loadPosts_sorted_by_date:
  assumes parse: "\<forall>p \<in> set ps. parseDate (date p) \<noteq> None"
    and st: "200 \<le> st" "st \<le> 299"
  shows "mset (posts (loadPosts parseDate (Response st (Json (Some \<lparr> feed_posts = Some ps \<rparr>))) s))
           = mset ps
       \<and> laterFirst parseDate
           (posts (loadPosts parseDate (Response st (Json (Some \<lparr> feed_posts = Some ps \<rparr>))) s))
       \<and> filter (\<lambda>p. parseDate (date p) = Some k)
           (posts (loadPosts parseDate (Response st (Json (Some \<lparr> feed_posts = Some ps \<rparr>))) s))
           = filter (\<lambda>p. parseDate (date p) = Some k) ps"
proof -
  have "mset (sortByDate parseDate ps) = mset ps"
    by (simp add: sortByDate_def mset_array_sort)
  moreover have "laterFirst parseDate (sortByDate parseDate ps)"
    using parse by (intro laterFirst_sorted sorted_sortByDate)
  moreover have "filter (\<lambda>p. parseDate (date p) = Some k) (sortByDate parseDate ps)
           = filter (\<lambda>p. parseDate (date p) = Some k) ps"
    using parse by (rule stable_sortByDate)
  ultimately show ?thesis by (simp add: loadPosts_posts[OF st])
qed

theorem loadPosts_sorted_by_date_witness:
  "list_all (\<lambda>p. exampleParseDate (date p) \<noteq> None) (rev threePosts)
   \<and> mset (posts (loadPosts exampleParseDate (Response 200 (Json (Some \<lparr> feed_posts = Some (rev threePosts) \<rparr>))) blankBlog))
       = mset (rev threePosts)
   \<and> laterFirst exampleParseDate
       (posts (loadPosts exampleParseDate (Response 200 (Json (Some \<lparr> feed_posts = Some (rev threePosts) \<rparr>))) blankBlog))
   \<and> posts (loadPosts exampleParseDate (Response 200 (Json (Some \<lparr> feed_posts = Some (rev threePosts) \<rparr>))) blankBlog)
       = threePosts"
proof -
  have h: "\<forall>p \<in> set (rev threePosts). exampleParseDate (date p) \<noteq> None"
    by (simp add: threePosts_def examplePost_def exampleParseDate_def)
  have e: "posts (loadPosts exampleParseDate (Response 200 (Json (Some \<lparr> feed_posts = Some (rev threePosts) \<rparr>))) blankBlog)
       = threePosts"
    by code_simp
  show ?thesis
    using loadPosts_sorted_by_date[OF h, of 200 blankBlog 0] h e by (simp add: list_all_iff)
qed

text \<open>
  C4 as stated fails on an array with a date that does not parse: the comparator answers
  NaN for every pair with that post, the array stays as fetched, and the post of the first
  of January stands before the post of the second.
\<close>

theorem loadPosts_unparseable_date_counterexample:
  "posts (loadPosts exampleParseDate (exampleFeed undatedPosts) blankBlog) = undatedPosts
   \<and> \<not> laterFirst exampleParseDate
         (posts (loadPosts exampleParseDate (exampleFeed undatedPosts) blankBlog))"
  by code_simp


subsection \<open>Escaping\<close>

lemma escapeChar_no_angle: "CHR ''<'' \<notin> set (escapeChar c) \<and> CHR ''>'' \<notin> set (escapeChar c)"
  by (simp add: escapeChar_def)

lemma escapeHtml_no_angle: "CHR ''<'' \<notin> set (escapeHtml s) \<and> CHR ''>'' \<notin> set (escapeHtml s)"
  by (induction s) (simp_all add: escapeHtml_def escapeChar_no_angle)

text \<open>
  C5. A post without an image whose category begins with an angle bracket: the placeholder
  of its card holds the bracket itself, where the escaped first character is \<open>&lt;\<close>.
\<close>

theorem placeholder_not_escaped:
  \<open>image_field markupPost = None
   \<and> imageHtml markupPost =
       ''<div class="image-placeholder">\<newline>           <span><</span>\<newline>         </div>''
   \<and> escapeHtml (take 1 (category markupPost)) = ''&lt;''\<close>
  by code_simp



section \<open>Properties of the detail component\<close>














section \<open>Properties of the storage helpers\<close>

lemma storage_set_success:
  assumes "storage_set stringify ls key v = (True, ls')" "stringify v = Text t"
  shows "ls_items ls' key = Some t \<and> \<not> ls_denied ls'"
  using assms
  by (auto simp: storage_set_def setItem_def split: if_splits)

text \<open>
  C10. After a \<open>storage.set\<close> that returned \<open>true\<close> for a JSON-serialisable value,
  \<open>storage.get\<close> of the key returns the value; and \<open>storage.get\<close> returns the default when
  the key has no item, when reading throws, and when parsing the item throws.
\<close>

theorem storage_round_trip:
  "(serialisable stringify parse v \<and> storage_set stringify ls key v = (True, ls')
      \<longrightarrow> storage_get parse ls' key d = v)
   \<and> (ls_items ls key = None \<longrightarrow> storage_get parse ls key d = d)
   \<and> (getItem ls key = Inl e \<longrightarrow> storage_get parse ls key d = d)
   \<and> (ls_items ls key = Some item \<and> parse item = None \<longrightarrow> storage_get parse ls key d = d)"
proof (intro conjI impI)
  assume a: "serialisable stringify parse v \<and> storage_set stringify ls key v = (True, ls')"
  then obtain t where t: "stringify v = Text t" "t \<noteq> []" "parse t = Some v"
    by (auto simp: serialisable_def split: stringified.splits)
  have "ls_items ls' key = Some t \<and> \<not> ls_denied ls'"
    using storage_set_success[of stringify ls key v ls' t] a t(1) by simp
  then show "storage_get parse ls' key d = v"
    using t by (simp add: storage_get_def getItem_def truthy_def)
next
  assume "ls_items ls key = None"
  then show "storage_get parse ls key d = d"
    by (simp add: storage_get_def getItem_def truthy_def)
next
  assume "getItem ls key = Inl e"
  then show "storage_get parse ls key d = d"
    by (simp add: storage_get_def)
next
  assume "ls_items ls key = Some item \<and> parse item = None"
  then show "storage_get parse ls key d = d"
    by (simp add: storage_get_def getItem_def truthy_def)
qed

theorem storage_round_trip_witness:
  "serialisable exampleStringify exampleParse True
   \<and> storage_set exampleStringify emptyStorage ''seen'' True = (True, storedTrue)
   \<and> storage_get exampleParse storedTrue ''seen'' False = True
   \<and> storage_get exampleParse emptyStorage ''seen'' False = False
   \<and> storage_get exampleParse deniedStorage ''seen'' True = True
   \<and> storage_get exampleParse brokenStorage ''seen'' True = True"
proof -
  have s: "serialisable exampleStringify exampleParse True"
    by (simp add: serialisable_def exampleStringify_def exampleParse_def)
  have w: "storage_set exampleStringify emptyStorage ''seen'' True = (True, storedTrue)"
    by (simp add: storedTrue_def storage_set_def exampleStringify_def setItem_def emptyStorage_def)
  have n: "ls_items emptyStorage ''seen'' = None" by (simp add: emptyStorage_def)
  have g: "getItem deniedStorage ''seen'' = Inl SecurityError"
    by (simp add: getItem_def deniedStorage_def)
  have b: "ls_items brokenStorage ''seen'' = Some ''{oops'' \<and> exampleParse ''{oops'' = None"
    by (simp add: brokenStorage_def exampleParse_def)
  show ?thesis
    using storage_round_trip[of exampleStringify exampleParse True emptyStorage "''seen''" storedTrue
        False SecurityError "''{oops''"]
      storage_round_trip[of exampleStringify exampleParse True deniedStorage "''seen''" storedTrue
        True SecurityError "''{oops''"]
      storage_round_trip[of exampleStringify exampleParse True brokenStorage "''seen''" storedTrue
        True SecurityError "''{oops''"]
      s w n g b
    by simp
qed


section \<open>Properties of the intro overlays\<close>

subsection \<open>Reduced motion\<close>

text \<open>
  C8, amended. With the reduced-motion preference the welcome animation is bypassed at
  once, by the same \<open>skipImmediately\<close> as for the stored preference and the \<open>skip\<close>
  parameter. The starfield loader is bypassed by the session item and by the \<open>skip\<close>
  parameter only: with the reduced-motion preference alone it keeps its overlay and runs
  its timed sequence, without drawing the starfield.
\<close>

theorem reduced_motion_skip:
  "(wenv_reducedMotion wenv \<longrightarrow>
      shouldSkipAnimation wenv \<and> WelcomeAnimation_init wenv w = welcome_skipImmediately w)
   \<and> (shouldSkipAnimation wenv \<longrightarrow> WelcomeAnimation_init wenv w = welcome_skipImmediately w)
   \<and> shouldSkip env = (truthy (env_sessionItem env) \<or> urlGet (env_query env) ''skip'' = Some ''true'')
   \<and> (shouldSkip env \<and> env_overlay env \<longrightarrow> StarfieldLoader_init env s = skipImmediately s)
   \<and> (env_reducedMotion env \<and> \<not> shouldSkip env \<and> env_overlay env \<longrightarrow>
        overlay_inDocument (StarfieldLoader_init env s) = overlay_inDocument s
        \<and> body_loaderActive (StarfieldLoader_init env s)
        \<and> Fallback \<in> set (pending (StarfieldLoader_init env s))
        \<and> framesDrawn (StarfieldLoader_init env s) = framesDrawn s
        \<and> reveals (StarfieldLoader_init env s) = reveals s)"
  by (auto simp: shouldSkipAnimation_def WelcomeAnimation_init_def shouldSkip_def
      StarfieldLoader_init_def Let_def onResourcesLoaded_def)

text \<open>
  C8 as stated fails for the starfield loader: on a first visit with the reduced-motion
  preference its \<open>init\<close> does not skip; the overlay stays, and the progress frame and the
  fallback timer are scheduled.
\<close>

theorem reduced_motion_starfield_counterexample:
  "env_reducedMotion reducedMotionEnv
   \<and> StarfieldLoader_init reducedMotionEnv (new_loader reducedMotionEnv False)
       \<noteq> skipImmediately (new_loader reducedMotionEnv False)
   \<and> overlay_inDocument (StarfieldLoader_init reducedMotionEnv (new_loader reducedMotionEnv False))
   \<and> body_loaderActive (StarfieldLoader_init reducedMotionEnv (new_loader reducedMotionEnv False))
   \<and> pending (StarfieldLoader_init reducedMotionEnv (new_loader reducedMotionEnv False))
       = [ProgressFrame, Fallback]"
  by (simp add: reducedMotionEnv_def new_loader_def StarfieldLoader_init_def shouldSkip_def
      truthy_def urlGet_def skipImmediately_def revealContent_def Let_def)

theorem reduced_motion_skip_witness:
  "WelcomeAnimation_init reducedMotionWelcomeEnv (new_welcome False)
     = welcome_skipImmediately (new_welcome False)
   \<and> welcome_inDocument (WelcomeAnimation_init reducedMotionWelcomeEnv (new_welcome False)) = False
   \<and> wpending (WelcomeAnimation_init reducedMotionWelcomeEnv (new_welcome False)) = []
   \<and> shouldSkip reducedMotionEnv = False
   \<and> Fallback \<in> set (pending (StarfieldLoader_init reducedMotionEnv (new_loader reducedMotionEnv False)))
   \<and> framesDrawn (StarfieldLoader_init reducedMotionEnv (new_loader reducedMotionEnv False)) = 0
   \<and> framesDrawn (StarfieldLoader_init firstVisitEnv (new_loader firstVisitEnv False)) = 1"
proof -
  have a: "wenv_reducedMotion reducedMotionWelcomeEnv" by (simp add: reducedMotionWelcomeEnv_def)
  have b: "env_reducedMotion reducedMotionEnv \<and> \<not> shouldSkip reducedMotionEnv \<and> env_overlay reducedMotionEnv"
    by (simp add: reducedMotionEnv_def shouldSkip_def truthy_def urlGet_def)
  have c: "framesDrawn (StarfieldLoader_init firstVisitEnv (new_loader firstVisitEnv False)) = 1"
    by (simp add: firstVisitEnv_def reducedMotionEnv_def new_loader_def StarfieldLoader_init_def
        shouldSkip_def truthy_def urlGet_def Let_def initStarfield_def animateStarfield_def
        onResourcesLoaded_def)
  show ?thesis
    using reduced_motion_skip[of reducedMotionWelcomeEnv "new_welcome False" reducedMotionEnv
        "new_loader reducedMotionEnv False"] a b c
    by (simp add: welcome_skipImmediately_def revealMainContent_def new_welcome_def new_loader_def)
qed


subsection \<open>The completion and skip flags\<close>









































end
